theory Spec2Isabelle
  imports Main "HOL-Library.Char_ord"
begin

section \<open>JavaScript values\<close>

text \<open>
  The values that flow through \<^verbatim>\<open>ComponentBuilder\<close>. An object is the list of its own
  properties in insertion order (keys that look like array indices, which the engine
  lists first, get no special place). Numbers are the integers that a double holds
  exactly (\<^verbatim>\<open>Date.now()\<close> is one).
\<close>

datatype 'f jsvalue =
    Undefined
  | Null
  | Bool bool
  | Num int
  | Str string
  | Arr "'f jsvalue list"
  | Obj "(string \<times> 'f jsvalue) list"
  | Fun 'f

text \<open>
  The errors. \<open>Error m\<close> is \<^verbatim>\<open>throw new Error(m)\<close> of the builder itself;
  \<open>TypeError\<close> is what the engine throws on a property read of
  \<^verbatim>\<open>undefined\<close>/\<^verbatim>\<open>null\<close> or a call of a non-function; \<open>HostError\<close> is an
  exception or rejection that comes out of a host facility (\<^verbatim>\<open>new Function\<close>,
  \<^verbatim>\<open>JSON.parse\<close>, \<^verbatim>\<open>fetch\<close>) or out of a function of the user; \<open>Unmodelled\<close>
  marks the few shapes of input on which the model does not follow the engine.
\<close>

datatype error = Error string | TypeError | HostError string | Unmodelled

text \<open>
  A function value carries what \<^verbatim>\<open>toString()\<close> returns for it and what a call does: given
  \<^verbatim>\<open>this\<close> and the arguments, it throws or returns a value. What a function sees of
  \<^verbatim>\<open>this\<close>, of an argument or of a result is a value whose functions are reduced to
  their source text. What a call writes (to the element, to the context) is outside the
  model: a call only returns or throws.
\<close>

type_synonym jsdata = "string jsvalue"

datatype jsfun = JsFun (source: string) (call: "jsdata \<Rightarrow> jsdata list \<Rightarrow> error + jsdata")

type_synonym jsval = "jsfun jsvalue"

type_synonym object = "(string \<times> jsval) list"

text \<open>What a function sees of a value passed to it.\<close>

definition as_data :: "jsval \<Rightarrow> jsdata" where
  "as_data v = map_jsvalue source v"

subsection \<open>Property access\<close>

text \<open>\<^verbatim>\<open>o.k\<close> for an object \<open>o\<close>: the value of the property, \<^verbatim>\<open>undefined\<close> when it is
  absent.\<close>

definition field :: "(string \<times> 'f jsvalue) list \<Rightarrow> string \<Rightarrow> 'f jsvalue" where
  "field kvs k = (case map_of kvs k of None \<Rightarrow> Undefined | Some x \<Rightarrow> x)"

text \<open>\<^verbatim>\<open>o[k] = v\<close>, and one entry of an object literal or of a spread: an existing
  property keeps its place and takes the new value, a new one goes last.\<close>

fun obj_set :: "(string \<times> 'v) list \<Rightarrow> string \<Rightarrow> 'v \<Rightarrow> (string \<times> 'v) list" where
  "obj_set [] k v = [(k, v)]"
| "obj_set ((k', v') # kvs) k v =
     (if k' = k then (k, v) # kvs else (k', v') # obj_set kvs k v)"

text \<open>\<^verbatim>\<open>{...o, ...extra}\<close>: the entries of \<open>extra\<close> are set one after the other.\<close>

definition spread :: "(string \<times> 'v) list \<Rightarrow> (string \<times> 'v) list \<Rightarrow> (string \<times> 'v) list" where
  "spread o1 extra = foldl (\<lambda>acc (k, v). obj_set acc k v) o1 extra"

text \<open>Truthiness, as \<^verbatim>\<open>||\<close>, \<^verbatim>\<open>?:\<close> and \<^verbatim>\<open>if\<close> test it.\<close>

fun truthy :: "'f jsvalue \<Rightarrow> bool" where
  "truthy Undefined = False"
| "truthy Null = False"
| "truthy (Bool b) = b"
| "truthy (Num n) = (n \<noteq> 0)"
| "truthy (Str s) = (s \<noteq> [])"
| "truthy _ = True"

definition or_else :: "'f jsvalue \<Rightarrow> 'f jsvalue \<Rightarrow> 'f jsvalue" where
  "or_else a b = (if truthy a then a else b)"

subsection \<open>Conversion to text\<close>

fun digit_char :: "nat \<Rightarrow> char" where
  "digit_char n = char_of (48 + n)"

fun show_nat :: "nat \<Rightarrow> string" where
  "show_nat n = (if n < 10 then [digit_char n] else show_nat (n div 10) @ [digit_char (n mod 10)])"

declare show_nat.simps [simp del]

definition show_int :: "int \<Rightarrow> string" where
  "show_int i = (if i < 0 then CHR ''-'' # show_nat (nat (- i)) else show_nat (nat i))"

fun join :: "string \<Rightarrow> string list \<Rightarrow> string" where
  "join sep [] = []"
| "join sep [x] = x"
| "join sep (x # y # ys) = x @ sep @ join sep (y # ys)"

text \<open>
  \<^verbatim>\<open>String(v)\<close>, which is what a template literal and \<^verbatim>\<open>+\<close> with a string apply to a
  value: an array joins its elements with commas, \<^verbatim>\<open>null\<close> and \<^verbatim>\<open>undefined\<close> elements
  giving the empty text; a plain object gives \<^verbatim>\<open>[object Object]\<close>; a function gives
  its source text (the parameter \<open>src\<close>).
\<close>

fun js_String :: "('f \<Rightarrow> string) \<Rightarrow> 'f jsvalue \<Rightarrow> string" where
  "js_String src Undefined = ''undefined''"
| "js_String src Null = ''null''"
| "js_String src (Bool b) = (if b then ''true'' else ''false'')"
| "js_String src (Num n) = show_int n"
| "js_String src (Str s) = s"
| "js_String src (Arr xs) =
     join '','' (map (\<lambda>x. if x = Undefined \<or> x = Null then [] else js_String src x) xs)"
| "js_String src (Obj kvs) = ''[object Object]''"
| "js_String src (Fun f) = src f"

abbreviation String_of :: "jsval \<Rightarrow> string" where
  "String_of \<equiv> js_String source"

abbreviation String_of_data :: "jsdata \<Rightarrow> string" where
  "String_of_data \<equiv> js_String (\<lambda>src. src)"

text \<open>\<^verbatim>\<open>v.toString()\<close>: the same text, except that the receiver must not be
  \<^verbatim>\<open>undefined\<close> or \<^verbatim>\<open>null\<close>.\<close>

definition toString :: "jsval \<Rightarrow> error + string" where
  "toString v = (if v = Undefined \<or> v = Null then Inl TypeError else Inr (String_of v))"

text \<open>\<^verbatim>\<open>Object.keys(v)\<close> paired with \<^verbatim>\<open>v[key]\<close>, for a truthy \<open>v\<close>: the properties
  of an object, the indices of an array or of a string, nothing for the rest.\<close>

fun own_entries :: "'f jsvalue \<Rightarrow> (string \<times> 'f jsvalue) list" where
  "own_entries (Obj kvs) = kvs"
| "own_entries (Arr xs) = zip (map show_nat [0 ..< length xs]) xs"
| "own_entries (Str s) = zip (map show_nat [0 ..< length s]) (map (\<lambda>c. Str [c]) s)"
| "own_entries _ = []"

section \<open>toPascalCase\<close>

text \<open>
  \<^verbatim>\<open>str.replace(/(^\w|-\w)/g, m => m.replace('-', '').toUpperCase())\<close>.
  A match is a word character at the very start, or a hyphen and the word character
  after it; matches are found from left to right and do not overlap; each is replaced
  by its word character in upper case.
\<close>

definition is_word :: "char \<Rightarrow> bool" where
  "is_word c =
     (let n = (of_char c :: nat) in
      (97 \<le> n \<and> n \<le> 122) \<or> (65 \<le> n \<and> n \<le> 90) \<or> (48 \<le> n \<and> n \<le> 57) \<or> n = 95)"

definition toUpperCase :: "char \<Rightarrow> char" where
  "toUpperCase c =
     (let n = (of_char c :: nat) in if 97 \<le> n \<and> n \<le> 122 then char_of (n - 32) else c)"

fun replace_from :: "string \<Rightarrow> string" where
  "replace_from [] = []"
| "replace_from [c] = [c]"
| "replace_from (c # d # cs) =
     (if c = CHR ''-'' \<and> is_word d then toUpperCase d # replace_from cs
      else c # replace_from (d # cs))"

fun toPascalCase :: "string \<Rightarrow> string" where
  "toPascalCase [] = []"
| "toPascalCase (c # cs) =
     (if is_word c then toUpperCase c # replace_from cs else replace_from (c # cs))"

section \<open>The state and the host\<close>

text \<open>
  An element class is the class \<^verbatim>\<open>GeneratedComponent\<close> of \<^verbatim>\<open>registerWebComponent\<close>,
  with the definition it closes over and the methods put on its prototype, or the class
  that a generated script declares for a record.
\<close>

datatype element_class =
    GeneratedComponent (class_definition: object) (class_prototype: object)
  | ScriptComponent (class_record: object)

datatype request = GET string | POST string string

text \<open>
  The execution context: the element registry \<^verbatim>\<open>customElements\<close> (classes keyed by
  name, with \<^verbatim>\<open>get\<close> and \<^verbatim>\<open>define\<close>; the checks a browser makes on the name are not
  modelled), the warnings written with \<^verbatim>\<open>console.warn\<close>, the requests issued with
  \<^verbatim>\<open>fetch\<close> (latest last) and the globals a script sets on \<^verbatim>\<open>window\<close>.
\<close>

record world =
  customElements :: "string \<rightharpoonup> element_class"
  console_warn :: "string list"
  fetched :: "request list"
  window :: "string \<rightharpoonup> element_class"

text \<open>A \<^verbatim>\<open>ComponentBuilder\<close>: \<^verbatim>\<open>this.registry\<close> (the Definition Store) and
  \<^verbatim>\<open>this.config\<close>.\<close>

record builder =
  registry :: "string \<rightharpoonup> object"
  config :: object

type_synonym state = "builder \<times> world"

text \<open>
  What the builder takes from the JavaScript host, as parameters:
  \<^item> \<open>new_Function ps body\<close> is \<^verbatim>\<open>new Function(...ps, body)\<close>, which only compiles: the
    function, or the exception of the parser;
  \<^item> \<open>run_Function body s\<close> is \<^verbatim>\<open>new Function(body)()\<close> in state \<open>s\<close>, which runs the
    body with everything in reach: the value the body returns, or the exception of the
    parser or of the run, and the state as the run leaves it;
  \<^item> \<open>JSON_parse\<close>, and \<open>JSON_stringify v\<close>: the text that \<^verbatim>\<open>JSON.stringify(v)\<close> gives
    once it is interpolated or sent, or its exception;
  \<^item> \<open>fetch_json r\<close> is the body of the response to request \<open>r\<close>, read with
    \<^verbatim>\<open>.json()\<close>, or the rejection;
  \<^item> \<open>parses text\<close>: the host takes \<open>text\<close> as a script (\<open>Inr ()\<close>), or its parser throws.
\<close>

record host =
  new_Function :: "string list \<Rightarrow> string \<Rightarrow> error + jsfun"
  run_Function :: "string \<Rightarrow> state \<Rightarrow> (error + jsval) \<times> state"
  JSON_parse :: "string \<Rightarrow> error + jsval"
  JSON_stringify :: "jsval \<Rightarrow> error + string"
  fetch_json :: "request \<Rightarrow> error + jsval"
  parses :: "string \<Rightarrow> error + unit"

definition constructor :: "object \<Rightarrow> builder" where
  "constructor options =
     \<lparr> registry = Map.empty,
       config = spread
         [(''apiEndpoint'', or_else (field options ''apiEndpoint'') Null),
          (''localRegistry'', or_else (field options ''localRegistry'') (Bool True))]
         options \<rparr>"

section \<open>registerWebComponent\<close>

text \<open>
  Nothing happens when the name is registered. Otherwise the class is declared, every
  entry of a truthy \<^verbatim>\<open>definition.methods\<close> is put on its prototype, and the class is
  registered under the name.
\<close>

definition registerWebComponent :: "string \<Rightarrow> object \<Rightarrow> world \<Rightarrow> world" where
  "registerWebComponent name defn w =
     (if customElements w name \<noteq> None then w
      else
        let methods = field defn ''methods'';
            proto = (if truthy methods then spread [] (own_entries methods) else [])
        in w\<lparr>customElements := (customElements w)(name \<mapsto> GeneratedComponent defn proto)\<rparr>)"

section \<open>define\<close>

fun serialize_entries :: "(string \<times> jsval) list \<Rightarrow> object \<Rightarrow> error + object" where
  "serialize_entries [] serialized = Inr serialized"
| "serialize_entries ((key, m) # rest) serialized =
     (case toString m of
        Inl e \<Rightarrow> Inl e
      | Inr s \<Rightarrow> serialize_entries rest (obj_set serialized key (Str s)))"

definition serializeMethods :: "jsval \<Rightarrow> error + object" where
  "serializeMethods methods =
     (if methods = Undefined \<or> methods = Null then Inl TypeError
      else serialize_entries (own_entries methods) [])"

definition filtered_keys :: "string list" where
  "filtered_keys = [''version'', ''props'', ''template'', ''styles'', ''methods'', ''events'']"

text \<open>
  \<^verbatim>\<open>define(name, definition)\<close> (\<open>define\<close> is a word of the theory language, hence
  the name \<open>define_component\<close>), where \<open>now\<close> is what \<^verbatim>\<open>Date.now()\<close> returns during the call.
  The result is the returned record or the exception, with the state after the call.
\<close>

definition define_component :: "string \<Rightarrow> object \<Rightarrow> int \<Rightarrow> state \<Rightarrow> (error + object) \<times> state" where
  "define_component name defn now s =
     (case (if truthy (field defn ''methods'') then serializeMethods (field defn ''methods'')
            else Inr []) of
        Inl e \<Rightarrow> (Inl e, s)
      | Inr serializedMethods \<Rightarrow>
          (case toString (field defn ''template'') of
             Inl e \<Rightarrow> (Inl e, s)
           | Inr template \<Rightarrow>
               let componentDef = spread
                     [(''name'', Str name),
                      (''version'', or_else (field defn ''version'') (Str ''1.0.0'')),
                      (''props'', or_else (field defn ''props'') (Arr [])),
                      (''template'', Str template),
                      (''styles'', or_else (field defn ''styles'') (Str [])),
                      (''methods'', Obj serializedMethods),
                      (''events'', or_else (field defn ''events'') (Arr [])),
                      (''created'', Num now)]
                     (filter (\<lambda>(k, v). k \<notin> set filtered_keys) defn);
                   b = (fst s)\<lparr>registry := (registry (fst s))(name \<mapsto> componentDef)\<rparr>;
                   w = registerWebComponent name defn (snd s)
               in (Inr componentDef, (b, w))))"

section \<open>registerFromData and import\<close>

text \<open>\<^verbatim>\<open>template.replace(/`/g, '\\`')\<close>: a backslash before every backtick.\<close>

definition escape_backticks :: "string \<Rightarrow> string" where
  "escape_backticks t = concat (map (\<lambda>c. if c = CHR 0x60 then [CHR 0x5C, CHR 0x60] else [c]) t)"

definition template_body :: "string \<Rightarrow> string" where
  "template_body t = ''return `'' @ escape_backticks t @ ''`''"

text \<open>The \<^verbatim>\<open>template\<close> entry of the definition that \<open>registerFromData\<close> builds; only a
  string has \<^verbatim>\<open>replace\<close>.\<close>

definition reconstruct_template :: "host \<Rightarrow> object \<Rightarrow> error + jsfun" where
  "reconstruct_template h cd =
     (case field cd ''template'' of
        Str t \<Rightarrow> new_Function h [''props'', ''state''] (template_body t)
      | Obj _ \<Rightarrow> Inl Unmodelled
      | _ \<Rightarrow> Inl TypeError)"

text \<open>The loop over \<^verbatim>\<open>Object.keys(componentData.methods)\<close>; \<open>target\<close> is
  \<^verbatim>\<open>definition.methods\<close>, which an option may have replaced. Each text is run by the
  host, in the state the texts before it have left.\<close>

fun reconstruct_methods ::
  "host \<Rightarrow> (string \<times> jsval) list \<Rightarrow> jsval \<Rightarrow> state \<Rightarrow> (error + jsval) \<times> state" where
  "reconstruct_methods h [] target s = (Inr target, s)"
| "reconstruct_methods h ((methodName, text) # rest) target s =
     (case run_Function h (''return '' @ String_of text) s of
        (Inl e, s1) \<Rightarrow> (Inl e, s1)
      | (Inr m, s1) \<Rightarrow>
          (case target of
             Obj ms \<Rightarrow> reconstruct_methods h rest (Obj (obj_set ms methodName m)) s1
           | Undefined \<Rightarrow> (Inl TypeError, s1)
           | Null \<Rightarrow> (Inl TypeError, s1)
           | _ \<Rightarrow> (Inl Unmodelled, s1)))"

text \<open>The object \<^verbatim>\<open>definition\<close> that \<open>registerFromData\<close> builds from the record and the
  options before it registers anything.\<close>

definition reconstruct_definition ::
  "host \<Rightarrow> object \<Rightarrow> object \<Rightarrow> state \<Rightarrow> (error + object) \<times> state" where
  "reconstruct_definition h cd options s =
     (case reconstruct_template h cd of
        Inl e \<Rightarrow> (Inl e, s)
      | Inr f \<Rightarrow>
          let defn0 = spread
                [(''props'', field cd ''props''),
                 (''template'', Fun f),
                 (''styles'', field cd ''styles''),
                 (''methods'', Obj [])]
                options
          in if truthy (field cd ''methods'') then
               (case reconstruct_methods h (own_entries (field cd ''methods''))
                       (field defn0 ''methods'') s of
                  (Inl e, s1) \<Rightarrow> (Inl e, s1)
                | (Inr methods, s1) \<Rightarrow> (Inr (obj_set defn0 ''methods'' methods), s1))
             else (Inr defn0, s))"

definition registerFromData :: "host \<Rightarrow> jsval \<Rightarrow> object \<Rightarrow> state \<Rightarrow> (error + string) \<times> state" where
  "registerFromData h componentData options s =
     (case componentData of
        Obj cd \<Rightarrow>
          (case reconstruct_definition h cd options s of
             (Inl e, s1) \<Rightarrow> (Inl e, s1)
           | (Inr defn, s1) \<Rightarrow>
               (case field cd ''name'' of
                  Str name \<Rightarrow>
                    (Inr name,
                     ((fst s1)\<lparr>registry := (registry (fst s1))(name \<mapsto> cd)\<rparr>,
                      registerWebComponent name defn (snd s1)))
                | _ \<Rightarrow> (Inl Unmodelled, s1)))
      | Undefined \<Rightarrow> (Inl TypeError, s)
      | Null \<Rightarrow> (Inl TypeError, s)
      | _ \<Rightarrow> (Inl Unmodelled, s))"

definition startsWith :: "string \<Rightarrow> string \<Rightarrow> bool" where
  "startsWith s p = (take (length p) s = p)"

definition do_fetch :: "host \<Rightarrow> request \<Rightarrow> world \<Rightarrow> (error + jsval) \<times> world" where
  "do_fetch h r w = (fetch_json h r, w\<lparr>fetched := fetched w @ [r]\<rparr>)"

definition not_configured :: error where
  "not_configured = Error ''API endpoint not configured''"

definition loadFromCloud :: "host \<Rightarrow> string \<Rightarrow> state \<Rightarrow> (error + jsval) \<times> state" where
  "loadFromCloud h componentName s =
     (if \<not> truthy (field (config (fst s)) ''apiEndpoint'') then (Inl not_configured, s)
      else
        let (r, w) = do_fetch h
              (GET (String_of (field (config (fst s)) ''apiEndpoint'') @ ''/components/'' @ componentName))
              (snd s)
        in (r, (fst s, w)))"

definition saveToCloud :: "host \<Rightarrow> jsval \<Rightarrow> state \<Rightarrow> (error + jsval) \<times> state" where
  "saveToCloud h componentData s =
     (if \<not> truthy (field (config (fst s)) ''apiEndpoint'') then (Inl not_configured, s)
      else
        (case JSON_stringify h componentData of
           Inl e \<Rightarrow> (Inl e, s)
         | Inr body \<Rightarrow>
             let (r, w) = do_fetch h
                   (POST (String_of (field (config (fst s)) ''apiEndpoint'') @ ''/components'') body)
                   (snd s)
             in (r, (fst s, w))))"

text \<open>\<^verbatim>\<open>import(source, options)\<close>: the registered name or the exception, with the state
  after the call.\<close>

definition import :: "host \<Rightarrow> jsval \<Rightarrow> object \<Rightarrow> state \<Rightarrow> (error + string) \<times> state" where
  "import h src options s =
     (case src of
        Str text \<Rightarrow>
          (if startsWith text ''http'' then
             (case do_fetch h (GET text) (snd s) of
                (Inl e, w) \<Rightarrow> (Inl e, (fst s, w))
              | (Inr componentData, w) \<Rightarrow> registerFromData h componentData options (fst s, w))
           else if startsWith text ''{'' then
             (case JSON_parse h text of
                Inl e \<Rightarrow> (Inl e, s)
              | Inr componentData \<Rightarrow> registerFromData h componentData options s)
           else if \<not> truthy (field (config (fst s)) ''apiEndpoint'') then (Inl not_configured, s)
           else
             (case loadFromCloud h text s of
                (Inl e, s') \<Rightarrow> (Inl e, s')
              | (Inr componentData, s') \<Rightarrow> registerFromData h componentData options s'))
      | _ \<Rightarrow> registerFromData h src options s)"

section \<open>export and the artifact generators\<close>

abbreviation nl :: string where "nl \<equiv> [CHR 0x0A]"
abbreviation sq :: string where "sq \<equiv> [CHR 0x27]"
abbreviation dq :: string where "dq \<equiv> [CHR 0x22]"

text \<open>\<^verbatim>\<open>props.map(p => `${p}="value"`).join(' ')\<close>; only an array has \<^verbatim>\<open>map\<close>.\<close>

definition usage_attributes :: "jsval \<Rightarrow> error + string" where
  "usage_attributes props =
     (case props of
        Arr ps \<Rightarrow> Inr (join '' '' (map (\<lambda>p. String_of p @ ''='' @ dq @ ''value'' @ dq) ps))
      | Obj _ \<Rightarrow> Inl Unmodelled
      | _ \<Rightarrow> Inl TypeError)"

definition generateUsageInstructions :: "string \<Rightarrow> builder \<Rightarrow> error + string" where
  "generateUsageInstructions componentName b =
     (case registry b componentName of
        None \<Rightarrow> Inl TypeError
      | Some component \<Rightarrow>
          (case usage_attributes (field component ''props'') of
             Inl e \<Rightarrow> Inl e
           | Inr usage \<Rightarrow> Inr (concat
      [nl,
       ''Usage Instructions:'', nl,
       ''1. Copy the generated script to Project B'', nl,
       ''2. Include it in your HTML: <script src='', dq, ''path/to/'', componentName, ''.js'', dq, ''></script>'', nl,
       ''3. Use the component: <'', componentName, '' '', usage, ''></'', componentName, ''>'', nl])))"

definition generateMethodsCode :: "jsval \<Rightarrow> error + string" where
  "generateMethodsCode methods =
     (if methods = Undefined \<or> methods = Null then Inl TypeError
      else Inr (join (nl @ ''    '')
             (map (\<lambda>(name, m). name @ ''() { '' @ String_of m @ '' }'') (own_entries methods))))"

text \<open>\<^verbatim>\<open>this.toPascalCase(v)\<close> for any value: only a string has \<^verbatim>\<open>replace\<close>.\<close>

definition pascal_of :: "jsval \<Rightarrow> error + string" where
  "pascal_of v =
     (case v of Str n \<Rightarrow> Inr (toPascalCase n) | Obj _ \<Rightarrow> Inl Unmodelled | _ \<Rightarrow> Inl TypeError)"

definition script_text ::
  "string \<Rightarrow> string \<Rightarrow> string \<Rightarrow> string \<Rightarrow> string \<Rightarrow> string \<Rightarrow> string \<Rightarrow> string" where
  "script_text name pascal props_json template styles methods usage = concat
      [nl,
       ''// Generated component script for '', name, nl,
       ''(function() {'', nl,
       ''  '', sq, ''use strict'', sq, '';'', nl,
       ''  '', nl,
       ''  if (customElements.get('', sq, name, sq, '')) {'', nl,
       ''    console.warn('', sq, ''Component '', name, '' already registered'', sq, '');'', nl,
       ''    return;'', nl,
       ''  }'', nl,
       nl,
       ''  class '', pascal, '' extends HTMLElement {'', nl,
       ''    constructor() {'', nl,
       ''      super();'', nl,
       ''      this.attachShadow({ mode: '', sq, ''open'', sq, '' });'', nl,
       ''      this.props = {};'', nl,
       ''      this.state = {};'', nl,
       ''    }'', nl,
       nl,
       ''    static get observedAttributes() {'', nl,
       ''      return '', props_json, '';'', nl,
       ''    }'', nl,
       nl,
       ''    connectedCallback() {'', nl,
       ''      this.updateProps();'', nl,
       ''      this.render();'', nl,
       ''    }'', nl,
       nl,
       ''    attributeChangedCallback(name, oldValue, newValue) {'', nl,
       ''      if (oldValue !== newValue) {'', nl,
       ''        this.props[name] = newValue;'', nl,
       ''        this.render();'', nl,
       ''      }'', nl,
       ''    }'', nl,
       nl,
       ''    updateProps() {'', nl,
       ''      '', props_json, ''.forEach(prop => {'', nl,
       ''        this.props[prop] = this.getAttribute(prop) || '', sq, sq, '';'', nl,
       ''      });'', nl,
       ''    }'', nl,
       nl,
       ''    render() {'', nl,
       ''      const template = '', template, '';'', nl,
       ''      const html = template.call(this, this.props, this.state);'', nl,
       ''      const styles = `'', styles, ''`;'', nl,
       ''      this.shadowRoot.innerHTML = styles ? `<style>${styles}</style>${html}` : html;'', nl,
       ''    }'', nl,
       nl,
       ''    '', methods, nl,
       ''  }'', nl,
       nl,
       ''  customElements.define('', sq, name, sq, '', '', pascal, '');'', nl,
       ''  '', nl,
       ''  // Expose for manual instantiation'', nl,
       ''  window.'', pascal, '' = '', pascal, '';'', nl,
       ''})();'', nl,
       nl,
       ''// Usage instructions:'', nl,
       ''// <'', name, '' '', usage, ''></'', name, ''>'', nl]"

definition generateScript :: "host \<Rightarrow> object \<Rightarrow> error + string" where
  "generateScript h componentData =
     (case pascal_of (field componentData ''name'') of
        Inl e \<Rightarrow> Inl e
      | Inr pascal \<Rightarrow>
          (case JSON_stringify h (field componentData ''props'') of
             Inl e \<Rightarrow> Inl e
           | Inr props_json \<Rightarrow>
               (case generateMethodsCode (field componentData ''methods'') of
                  Inl e \<Rightarrow> Inl e
                | Inr methods \<Rightarrow>
                    (case usage_attributes (field componentData ''props'') of
                       Inl e \<Rightarrow> Inl e
                     | Inr usage \<Rightarrow>
                         Inr (script_text
                               (String_of (field componentData ''name''))
                               pascal
                               props_json
                               (String_of (field componentData ''template''))
                               (String_of (field componentData ''styles''))
                               methods
                               usage)))))"

text \<open>
  \<^verbatim>\<open>export(componentName, options)\<close>, where \<open>now\<close> is what \<^verbatim>\<open>Date.now()\<close> returns during
  the call.
\<close>

definition export ::
  "host \<Rightarrow> string \<Rightarrow> object \<Rightarrow> int \<Rightarrow> state \<Rightarrow> (error + jsval) \<times> state" where
  "export h componentName options now s =
     (case registry (fst s) componentName of
        None \<Rightarrow> (Inl (Error (''Component '' @ componentName @ '' not found'')), s)
      | Some component \<Rightarrow>
          let exportData = spread component
                [(''exportedAt'', Num now), (''exportOptions'', Obj options)]
          in if field options ''type'' = Str ''script'' then
               (case generateScript h exportData of
                  Inl e \<Rightarrow> (Inl e, s)
                | Inr text \<Rightarrow> (Inr (Str text), s))
             else if field options ''type'' = Str ''cloud'' then
               (if \<not> truthy (field (config (fst s)) ''apiEndpoint'') then (Inl not_configured, s)
                else saveToCloud h (Obj exportData) s)
             else
               (case generateUsageInstructions componentName (fst s) of
                  Inl e \<Rightarrow> (Inl e, s)
                | Inr usage \<Rightarrow>
                    (Inr (Obj [(''type'', Str ''json''), (''data'', Obj exportData),
                               (''usage'', Str usage)]), s)))"



section \<open>The element class of registerWebComponent\<close>

text \<open>
  An instance of \<^verbatim>\<open>GeneratedComponent\<close>: its attributes, \<^verbatim>\<open>this.props\<close>, \<^verbatim>\<open>this.state\<close>,
  \<^verbatim>\<open>this.shadowRoot.innerHTML\<close>, and how many times \<^verbatim>\<open>innerHTML\<close> has been assigned.
  A callback returns the exception, if any, and the instance as the callback leaves it.
\<close>

record element =
  attributes :: "(string \<times> string) list"
  props :: object
  el_state :: jsval
  innerHTML :: string
  render_count :: nat


definition observedAttributes :: "object \<Rightarrow> jsval" where
  "observedAttributes defn = or_else (field defn ''props'') (Arr [])"

text \<open>What a function called with the instance as \<^verbatim>\<open>this\<close> can read of it.\<close>

definition this_view :: "element \<Rightarrow> jsdata" where
  "this_view el =
     Obj [(''props'', as_data (Obj (props el))),
          (''state'', as_data (el_state el)),
          (''attributes'', Obj (map (\<lambda>(k, v). (k, Str v)) (attributes el))),
          (''shadowRoot'', Obj [(''innerHTML'', Str (innerHTML el))])]"

text \<open>
  \<^verbatim>\<open>render()\<close> of the class: the template is called first; if it throws, nothing is
  assigned; otherwise the content is replaced by the style element (for truthy styles)
  followed by the markup.
\<close>

definition render :: "object \<Rightarrow> element \<Rightarrow> (error + unit) \<times> element" where
  "render defn el =
     (case field defn ''template'' of
        Fun f \<Rightarrow>
          (case call f (this_view el) [as_data (Obj (props el)), as_data (el_state el)] of
             Inl e \<Rightarrow> (Inl e, el)
           | Inr html \<Rightarrow>
               let styles = (if truthy (field defn ''styles'')
                             then ''<style>'' @ String_of (field defn ''styles'') @ ''</style>''
                             else [])
               in (Inr (), el\<lparr>innerHTML := styles @ String_of_data html,
                              render_count := Suc (render_count el)\<rparr>))
      | Obj _ \<Rightarrow> (Inl Unmodelled, el)
      | _ \<Rightarrow> (Inl TypeError, el))"

text \<open>
  \<^verbatim>\<open>this.m(...)\<close> inside the class, for a method \<open>m\<close> of the class: an entry \<open>m\<close> of
  \<^verbatim>\<open>definition.methods\<close> has taken its place on the prototype, and is what gets called
  (a call of something that is no function throws); otherwise the method of the class
  runs.
\<close>

definition send ::
  "object \<Rightarrow> string \<Rightarrow> jsdata list \<Rightarrow> (element \<Rightarrow> (error + unit) \<times> element)
     \<Rightarrow> element \<Rightarrow> (error + unit) \<times> element" where
  "send proto m args own el =
     (case map_of proto m of
        None \<Rightarrow> own el
      | Some (Fun f) \<Rightarrow>
          (case call f (this_view el) args of
             Inl e \<Rightarrow> (Inl e, el)
           | Inr r \<Rightarrow> (Inr (), el))
      | Some _ \<Rightarrow> (Inl TypeError, el))"

text \<open>
  A lifecycle callback that the rendering target calls: an entry of that name in
  \<^verbatim>\<open>definition.methods\<close> is called in its place when it is a function; what the target
  does with an entry that is no function is not modelled.
\<close>

definition callback ::
  "object \<Rightarrow> string \<Rightarrow> jsdata list \<Rightarrow> (element \<Rightarrow> (error + unit) \<times> element)
     \<Rightarrow> element \<Rightarrow> (error + unit) \<times> element" where
  "callback proto m args own el =
     (case map_of proto m of
        None \<Rightarrow> own el
      | Some (Fun f) \<Rightarrow>
          (case call f (this_view el) args of
             Inl e \<Rightarrow> (Inl e, el)
           | Inr r \<Rightarrow> (Inr (), el))
      | Some _ \<Rightarrow> (Inl Unmodelled, el))"

text \<open>An attribute value is a string, or \<^verbatim>\<open>null\<close> for an attribute that is not there.\<close>

definition attr_value :: "string option \<Rightarrow> jsval" where
  "attr_value a = (case a of None \<Rightarrow> Null | Some v \<Rightarrow> Str v)"

definition attributeChangedCallback ::
  "element_class \<Rightarrow> string \<Rightarrow> string option \<Rightarrow> string option \<Rightarrow> element \<Rightarrow> (error + unit) \<times> element" where
  "attributeChangedCallback cls name oldValue newValue el =
     (case cls of
        GeneratedComponent defn proto \<Rightarrow>
          callback proto ''attributeChangedCallback''
            [Str name, as_data (attr_value oldValue), as_data (attr_value newValue)]
            (\<lambda>el. if oldValue \<noteq> newValue then
                     send proto ''render'' [] (render defn)
                       (el\<lparr>props := obj_set (props el) name (attr_value newValue)\<rparr>)
                   else (Inr (), el))
            el
      | ScriptComponent _ \<Rightarrow> (Inl Unmodelled, el))"

definition updateProps :: "object \<Rightarrow> element \<Rightarrow> (error + unit) \<times> element" where
  "updateProps defn el =
     (case or_else (field defn ''props'') (Arr []) of
        Arr ps \<Rightarrow>
          (Inr (), el\<lparr>props := foldl
             (\<lambda>acc p. obj_set acc (String_of p)
                (Str (case map_of (attributes el) (String_of p) of None \<Rightarrow> [] | Some v \<Rightarrow> v)))
             (props el) ps\<rparr>)
      | Obj _ \<Rightarrow> (Inl Unmodelled, el)
      | _ \<Rightarrow> (Inl TypeError, el))"

text \<open>\<^verbatim>\<open>if (definition.mounted) definition.mounted.call(this)\<close>.\<close>

definition mounted :: "object \<Rightarrow> element \<Rightarrow> (error + unit) \<times> element" where
  "mounted defn el =
     (case field defn ''mounted'' of
        Fun m \<Rightarrow>
          (case call m (this_view el) [] of
             Inl e \<Rightarrow> (Inl e, el)
           | Inr r \<Rightarrow> (Inr (), el))
      | Obj _ \<Rightarrow> (Inl Unmodelled, el)
      | v \<Rightarrow> (if truthy v then (Inl TypeError, el) else (Inr (), el)))"

definition connectedCallback :: "element_class \<Rightarrow> element \<Rightarrow> (error + unit) \<times> element" where
  "connectedCallback cls el =
     (case cls of
        GeneratedComponent defn proto \<Rightarrow>
          callback proto ''connectedCallback'' []
            (\<lambda>el.
               case send proto ''updateProps'' [] (updateProps defn) el of
                 (Inl e, el1) \<Rightarrow> (Inl e, el1)
               | (Inr _, el1) \<Rightarrow>
                   (case send proto ''render'' [] (render defn) el1 of
                      (Inl e, el2) \<Rightarrow> (Inl e, el2)
                    | (Inr _, el2) \<Rightarrow> mounted defn el2))
            el
      | ScriptComponent _ \<Rightarrow> (Inl Unmodelled, el))"

text \<open>\<^verbatim>\<open>element.setState(newState)\<close>, called by a method or from outside.\<close>

definition setState :: "element_class \<Rightarrow> jsval \<Rightarrow> element \<Rightarrow> (error + unit) \<times> element" where
  "setState cls newState el =
     (case cls of
        GeneratedComponent defn proto \<Rightarrow>
          send proto ''setState'' [as_data newState]
            (\<lambda>el. send proto ''render'' [] (render defn)
                    (el\<lparr>el_state := Obj (spread (spread [] (own_entries (el_state el)))
                                              (own_entries newState))\<rparr>))
            el
      | ScriptComponent _ \<Rightarrow> (Inl Unmodelled, el))"

section \<open>The derivation of the identifier, in the words of the specification\<close>

text \<open>
  Split the name on hyphens, upper-case the first letter of each segment, concatenate.
  \<open>capitalize\<close> upper-cases an ASCII first character; where a segment starts with a byte
  outside ASCII there is no answer (\<open>None\<close>): the upper case of such letters is not
  modelled.
\<close>

fun split_hyphen :: "string \<Rightarrow> string list" where
  "split_hyphen [] = [[]]"
| "split_hyphen (c # cs) =
     (if c = CHR ''-'' then [] # split_hyphen cs
      else (case split_hyphen cs of [] \<Rightarrow> [[c]] | x # xs \<Rightarrow> (c # x) # xs))"

fun capitalize :: "string \<Rightarrow> string option" where
  "capitalize [] = Some []"
| "capitalize (c # cs) =
     (if (of_char c :: nat) < 128 then Some (toUpperCase c # cs) else None)"

definition spec_pascal :: "string \<Rightarrow> string option" where
  "spec_pascal s = map_option concat (those (map capitalize (split_hyphen s)))"

section \<open>A concrete host and context for the examples\<close>

text \<open>
  \<open>literal_host\<close> does what every JavaScript host does on the inputs of the examples
  below, and answers \<open>HostError ''outside the fragment''\<close> elsewhere:
  \<^item> with parameters \<^verbatim>\<open>props, state\<close> it compiles a body \<^verbatim>\<open>return `text`\<close> whose \<open>text\<close>
    has no backtick, backslash, dollar sign, double quote or carriage return: the
    function returns \<open>text\<close>;
  \<^item> it rejects such a body with a syntax error when \<open>text\<close> opens a substitution
    \<^verbatim>\<open>${\<close> and has no closing brace at all;
  \<^item> running a body changes nothing;
  \<^item> it rejects with a syntax error a body \<^verbatim>\<open>return code\<close> to run when \<open>code\<close> has an
    opening parenthesis, no closing one, and no quote, backtick, slash, backslash or
    angle bracket (nothing that could put the parenthesis in a string or a comment);
  \<^item> it runs a body \<^verbatim>\<open>return digits\<close>, of at most 15 digits not starting with 0, to that
    number;
  \<^item> it prints as JSON an array of strings that need no escape;
  \<^item> it takes as a script the text generated for the component \<^verbatim>\<open>my-card\<close> with no props,
    the template \<^verbatim>\<open>(props, state) => '<p>hi</p>'\<close>, no styles and no methods.
\<close>

definition plain_char :: "char \<Rightarrow> bool" where
  "plain_char c = (c \<noteq> CHR 0x60 \<and> c \<noteq> CHR 0x5C \<and> c \<noteq> CHR ''$'' \<and> c \<noteq> CHR 0x0D \<and> c \<noteq> CHR 0x22)"

definition literal_of_body :: "string \<Rightarrow> string option" where
  "literal_of_body body =
     (if 9 \<le> length body \<and> take 8 body = ''return `'' \<and> last body = CHR 0x60
      then Some (butlast (drop 8 body)) else None)"

fun opens_substitution :: "string \<Rightarrow> bool" where
  "opens_substitution [] = False"
| "opens_substitution [c] = False"
| "opens_substitution (c # d # cs) =
     (if c = CHR ''$'' \<and> d = CHR ''{'' then True else opens_substitution (d # cs))"

definition unterminated_substitution :: "string \<Rightarrow> bool" where
  "unterminated_substitution t =
     (opens_substitution t \<and> CHR ''}'' \<notin> set t
      \<and> CHR 0x60 \<notin> set t \<and> CHR 0x5C \<notin> set t \<and> CHR 0x0D \<notin> set t)"

definition unclosed_parenthesis :: "string \<Rightarrow> bool" where
  "unclosed_parenthesis code =
     (CHR ''('' \<in> set code \<and> CHR '')'' \<notin> set code
      \<and> CHR 0x27 \<notin> set code \<and> CHR 0x22 \<notin> set code \<and> CHR 0x60 \<notin> set code
      \<and> CHR ''/'' \<notin> set code \<and> CHR 0x5C \<notin> set code
      \<and> CHR ''<'' \<notin> set code \<and> CHR ''>'' \<notin> set code)"

fun is_decimal :: "string \<Rightarrow> bool" where
  "is_decimal [] = False"
| "is_decimal (c # cs) =
     (CHR ''1'' \<le> c \<and> c \<le> CHR ''9'' \<and> list_all (\<lambda>d. CHR ''0'' \<le> d \<and> d \<le> CHR ''9'') cs
      \<and> length cs < 15)"

definition decimal_value :: "string \<Rightarrow> int" where
  "decimal_value ds = foldl (\<lambda>n d. 10 * n + (int (of_char d) - 48)) 0 ds"

definition syntax_error :: error where
  "syntax_error = HostError ''SyntaxError''"

definition outside :: error where
  "outside = HostError ''outside the fragment''"

fun plain_strings :: "jsval list \<Rightarrow> string list option" where
  "plain_strings [] = Some []"
| "plain_strings (Str s # vs) =
     (if list_all (\<lambda>c. plain_char c \<and> CHR 0x20 \<le> c) s
      then (case plain_strings vs of None \<Rightarrow> None | Some ss \<Rightarrow> Some (s # ss))
      else None)"
| "plain_strings (_ # vs) = None"

definition literal_host :: host where
  "literal_host =
     \<lparr> new_Function = (\<lambda>ps body.
         if ps = [''props'', ''state''] then
           (case literal_of_body body of
              Some text \<Rightarrow>
                if list_all plain_char text then
                  Inr (JsFun (''function anonymous(props,state'' @ nl @ '') {'' @ nl @ body @ nl @ ''}'')
                             (\<lambda>this args. Inr (Str text)))
                else if unterminated_substitution text then Inl syntax_error
                else Inl outside
            | None \<Rightarrow> Inl outside)
         else Inl outside),
       run_Function = (\<lambda>body s.
         (if take 7 body = ''return '' \<and> unclosed_parenthesis (drop 7 body) then Inl syntax_error
          else if take 7 body = ''return '' \<and> is_decimal (drop 7 body)
            then Inr (Num (decimal_value (drop 7 body)))
          else Inl outside,
          s)),
       JSON_parse = (\<lambda>text. Inl outside),
       JSON_stringify = (\<lambda>v.
         case v of
           Arr vs \<Rightarrow>
             (case plain_strings vs of
                Some ss \<Rightarrow> Inr (''['' @ join '','' (map (\<lambda>s. dq @ s @ dq) ss) @ '']'')
              | None \<Rightarrow> Inl outside)
         | _ \<Rightarrow> Inl outside),
       fetch_json = (\<lambda>r. Inl outside),
       parses = (\<lambda>text.
         if text = script_text ''my-card'' ''MyCard'' ''[]''
                     (''(props, state) => '' @ sq @ ''<p>hi</p>'' @ sq) [] [] []
         then Inr () else Inl outside) \<rparr>"

definition fresh_world :: world where
  "fresh_world = \<lparr> customElements = Map.empty, console_warn = [], fetched = [], window = Map.empty \<rparr>"

definition fresh_state :: state where
  "fresh_state = (constructor [], fresh_world)"

text \<open>The template function of the class registered under a name, if there is one.\<close>

definition registered_template :: "world \<Rightarrow> string \<Rightarrow> jsfun option" where
  "registered_template w name =
     (case customElements w name of
        Some (GeneratedComponent defn proto) \<Rightarrow>
          (case field defn ''template'' of Fun f \<Rightarrow> Some f | _ \<Rightarrow> None)
      | _ \<Rightarrow> None)"

text \<open>The arrow function \<^verbatim>\<open>(props, state) => '<p>hi</p>'\<close>.\<close>

definition hi_template :: jsfun where
  "hi_template =
     JsFun (''(props, state) => '' @ sq @ ''<p>hi</p>'' @ sq) (\<lambda>this args. Inr (Str ''<p>hi</p>''))"

text \<open>The state after \<^verbatim>\<open>define('my-card', { template: (props, state) => '<p>hi</p>' })\<close>
  at time 7 in a fresh context.\<close>

definition card_state :: state where
  "card_state = snd (define_component ''my-card'' [(''template'', Fun hi_template)] 7 fresh_state)"

text \<open>The record that \<open>define\<close> stores in \<open>card_state\<close>.\<close>

definition card_record :: object where
  "card_record = [(''name'', Str ''my-card''), (''version'', Str ''1.0.0''), (''props'', Arr []),
          (''template'', Str (''(props, state) => '' @ sq @ ''<p>hi</p>'' @ sq)),
          (''styles'', Str []), (''methods'', Obj []), (''events'', Arr []),
          (''created'', Num 7)]"

text \<open>
  A component with one prop and styles: the arrow function
  \<^verbatim>\<open>(props, state) => `<div>${props.title}</div>`\<close> (which throws when \<^verbatim>\<open>props\<close> is
  \<^verbatim>\<open>undefined\<close> or \<^verbatim>\<open>null\<close>), the definition that has it as template, the class
  \<open>registerWebComponent\<close> makes of it, an instance with the attribute \<^verbatim>\<open>title="A"\<close>, and
  that instance once connected.
\<close>

definition title_template :: jsfun where
  "title_template =
     JsFun ''(props, state) => `<div>${props.title}</div>`''
       (\<lambda>this args. case args of
          [] \<Rightarrow> Inl TypeError
        | Undefined # rest \<Rightarrow> Inl TypeError
        | Null # rest \<Rightarrow> Inl TypeError
        | Obj ps # rest \<Rightarrow> Inr (Str (''<div>'' @ String_of_data (field ps ''title'') @ ''</div>''))
        | other # rest \<Rightarrow> Inr (Str ''<div>undefined</div>''))"

definition title_definition :: object where
  "title_definition =
     [(''props'', Arr [Str ''title'']), (''template'', Fun title_template),
      (''styles'', Str ''div { color: red; }'')]"

definition title_class :: element_class where
  "title_class = GeneratedComponent title_definition []"







text \<open>The source text of \<open>hi_template\<close>, and the import of \<open>card_record\<close> into a fresh
  context.\<close>

definition hi_source :: string where
  "hi_source = ''(props, state) => '' @ sq @ ''<p>hi</p>'' @ sq"

definition imported_card :: "(error + string) \<times> state" where
  "imported_card = import literal_host (Obj card_record) [] fresh_state"

text \<open>In state \<open>s\<close> the host evaluates the source text of a method entry without an
  exception.\<close>

definition evaluates :: "host \<Rightarrow> state \<Rightarrow> string \<times> jsval \<Rightarrow> bool" where
  "evaluates h s entry =
     (case fst (run_Function h (''return '' @ String_of (snd entry)) s) of
        Inl e \<Rightarrow> False
      | Inr m \<Rightarrow> True)"

text \<open>
  Three records to import: one whose template is no function source at all, one whose
  method \<^verbatim>\<open>greet\<close> is the text \<^verbatim>\<open>42\<close>, one with a method whose source text stops after
  the opening parenthesis.
\<close>

definition num_record :: object where
  "num_record = [(''name'', Str ''x-num''), (''props'', Arr []),
     (''template'', Str hi_source), (''styles'', Str []),
     (''methods'', Obj [(''greet'', Str ''42'')])]"

definition bad_record :: object where
  "bad_record = [(''name'', Str ''x-bad''), (''props'', Arr []),
     (''template'', Str ''<<not a function>>''), (''styles'', Str []), (''methods'', Obj [])]"

definition greet_record :: object where
  "greet_record = [(''name'', Str ''x-greet''), (''props'', Arr []),
     (''template'', Str hi_source), (''styles'', Str []),
     (''methods'', Obj [(''greet'', Str ''function ('')])]"

section \<open>Facts about the state used by the examples\<close>

lemma fresh_registry: "registry (fst fresh_state) k = None"
  by (simp add: fresh_state_def constructor_def)

lemma fresh_elements: "customElements (snd fresh_state) k = None"
  by (simp add: fresh_state_def fresh_world_def)

lemma fresh_endpoint: "field (config (fst fresh_state)) ''apiEndpoint'' = Null"
  by (simp add: fresh_state_def constructor_def spread_def field_def or_else_def)

lemma literal_host_inert: "snd (run_Function literal_host body s) = s"
  by (simp add: literal_host_def)

section \<open>The derived identifier\<close>

lemma toPascalCase_tests:
  "toPascalCase ''my-component'' = ''MyComponent''
   \<and> toPascalCase ''test-component-name'' = ''TestComponentName''
   \<and> toPascalCase ''simple'' = ''Simple''"
  by code_simp

text \<open>
  C9 does not hold of the code: in \<^verbatim>\<open>a--b\<close> the first hyphen has no word character after
  it, so the regular expression leaves it in place. \<open>toPascalCase\<close> gives \<^verbatim>\<open>A-B\<close>, and
  that is what \<open>generateScript\<close> puts after \<^verbatim>\<open>class\<close>; splitting on hyphens, upper-casing
  the first letter of each segment and concatenating gives \<^verbatim>\<open>AB\<close>.
\<close>

theorem toPascalCase_double_hyphen:
  "toPascalCase ''a--b'' = ''A-B''
   \<and> pascal_of (Str ''a--b'') = Inr ''A-B''
   \<and> spec_pascal ''a--b'' = Some ''AB''"
  by (simp add: pascal_of_def) code_simp

section \<open>export of a name that is not stored\<close>

text \<open>
  C6: when the name is absent from the Definition Store, \<open>export\<close> fails with the error
  whose message is \<^verbatim>\<open>Component <name> not found\<close>, whatever the options, and changes
  nothing.
\<close>

theorem export_absent_name:
  "registry (fst s) name = None \<Longrightarrow>
     export h name options now s
       = (Inl (Error (''Component '' @ name @ '' not found'')), s)"
  by (simp add: export_def)

theorem export_absent_name_witness:
  "registry (fst fresh_state) ''non-existent'' = None
   \<and> export literal_host ''non-existent'' [(''type'', Str ''cloud'')] 7 fresh_state
       = (Inl (Error ''Component non-existent not found''), fresh_state)"
  using export_absent_name[of fresh_state "''non-existent''" literal_host "[(''type'', Str ''cloud'')]" 7]
  by (simp add: fresh_registry)

section \<open>define\<close>

text \<open>
  C7: \<open>define\<close> of a definition that has a template function and nothing else returns
  the record with version \<^verbatim>\<open>1.0.0\<close>, props the empty array, styles the empty string,
  methods the empty object and events the empty array (and the name, the source text of
  the template and the time of the call).
\<close>

theorem define_fills_defaults:
  "fst (define_component name [(''template'', Fun f)] now s) =
     Inr [(''name'', Str name), (''version'', Str ''1.0.0''), (''props'', Arr []),
          (''template'', Str (source f)), (''styles'', Str []), (''methods'', Obj []),
          (''events'', Arr []), (''created'', Num now)]"
  by (simp add: define_component_def field_def toString_def or_else_def spread_def
        filtered_keys_def Let_def)

text \<open>
  C10: \<open>define\<close> of a definition without a \<^verbatim>\<open>template\<close> property throws and leaves the
  builder and the context as they were: the Definition Store and the element registry
  hold what they held before.
\<close>

theorem define_without_template:
  "map_of defn ''template'' = None \<Longrightarrow> \<exists>e. define_component name defn now s = (Inl e, s)"
  by (auto simp: define_component_def field_def toString_def split: sum.splits)

theorem define_without_template_witness:
  "map_of [(''props'', Arr [Str ''title''])] ''template'' = (None :: jsval option)
   \<and> (\<exists>e. define_component ''my-card'' [(''props'', Arr [Str ''title''])] 7 fresh_state
            = (Inl e, fresh_state))"
  using define_without_template[of "[(''props'', Arr [Str ''title''])]" "''my-card''" 7 fresh_state]
  by simp

text \<open>
  C4 does not hold of the code: the filter of \<open>define\<close> keeps the supplied keys
  \<^verbatim>\<open>name\<close> and \<^verbatim>\<open>created\<close>, and the spread then overwrites both. Defining \<^verbatim>\<open>my-card\<close>
  at time 1000 with \<^verbatim>\<open>created: 5\<close>, \<^verbatim>\<open>name: 'other'\<close> and \<^verbatim>\<open>author: 'me'\<close> gives a record
  created at 5 and named \<^verbatim>\<open>other\<close> (the extension key \<^verbatim>\<open>author\<close> is carried through).
\<close>

theorem define_created_overwritten:
  "fst (define_component ''my-card''
          [(''template'', Fun hi_template), (''created'', Num 5), (''name'', Str ''other''),
           (''author'', Str ''me'')] 1000 fresh_state)
   = Inr [(''name'', Str ''other''), (''version'', Str ''1.0.0''), (''props'', Arr []),
          (''template'', Str (''(props, state) => '' @ sq @ ''<p>hi</p>'' @ sq)),
          (''styles'', Str []), (''methods'', Obj []), (''events'', Arr []),
          (''created'', Num 5), (''author'', Str ''me'')]"
  by (simp add: define_component_def field_def toString_def or_else_def spread_def
        filtered_keys_def Let_def hi_template_def)

section \<open>Cloud operations without an endpoint\<close>

lemma saveToCloud_unconfigured:
  "\<not> truthy (field (config (fst s)) ''apiEndpoint'') \<Longrightarrow>
     saveToCloud h d s = (Inl not_configured, s)"
  by (simp add: saveToCloud_def)

lemma loadFromCloud_unconfigured:
  "\<not> truthy (field (config (fst s)) ''apiEndpoint'') \<Longrightarrow>
     loadFromCloud h n s = (Inl not_configured, s)"
  by (simp add: loadFromCloud_def)

lemma export_cloud_unconfigured:
  assumes "\<not> truthy (field (config (fst s)) ''apiEndpoint'')"
    and "field options ''type'' = Str ''cloud''" and "registry (fst s) name = Some c"
  shows "export h name options now s = (Inl not_configured, s)"
  using assms by (simp add: export_def Let_def)

lemma import_name_unconfigured:
  assumes "\<not> truthy (field (config (fst s)) ''apiEndpoint'')"
    and "\<not> startsWith src ''http''" and "\<not> startsWith src ''{''"
  shows "import h (Str src) opts s = (Inl not_configured, s)"
  using assms by (simp add: import_def)

lemma card_state_endpoint: "field (config (fst card_state)) ''apiEndpoint'' = Null"
  by (simp add: card_state_def define_component_def Let_def toString_def field_def
      fresh_state_def constructor_def spread_def or_else_def)

lemma card_state_registry: "registry (fst card_state) ''my-card'' \<noteq> None"
  by (simp add: card_state_def define_component_def Let_def toString_def field_def)

text \<open>
  C5, as stated, fails: \<^verbatim>\<open>http-card\<close> is a bare name, not a URL, but it starts with
  \<^verbatim>\<open>http\<close>; with no endpoint configured, \<open>import\<close> of it issues the request
  \<^verbatim>\<open>fetch('http-card')\<close>.
\<close>

theorem http_name_is_fetched:
  "\<not> truthy (field (config (fst fresh_state)) ''apiEndpoint'')
   \<and> fetched (snd fresh_state) = []
   \<and> fetched (snd (snd (import literal_host (Str ''http-card'') [] fresh_state)))
        = [GET ''http-card'']"
proof -
  have "fetched (snd fresh_state) = []"
    by (simp add: fresh_state_def fresh_world_def)
  then show ?thesis
    by (simp add: fresh_endpoint import_def startsWith_def do_fetch_def literal_host_def)
qed

text \<open>
  C5, amended: with no truthy \<^verbatim>\<open>apiEndpoint\<close> in the configuration, \<open>export\<close> of a stored name with
  type \<^verbatim>\<open>cloud\<close> and \<open>import\<close> of a string that starts neither with \<^verbatim>\<open>http\<close> nor with
  \<^verbatim>\<open>{\<close> fail with the error \<^verbatim>\<open>API endpoint not configured\<close> and leave the state, and so
  the list of issued requests, as it was; so do \<open>saveToCloud\<close> and \<open>loadFromCloud\<close>
  themselves, and an \<open>export\<close> with type \<^verbatim>\<open>cloud\<close> of any name fails without a request.
\<close>

theorem cloud_without_endpoint:
  assumes "\<not> truthy (field (config (fst s)) ''apiEndpoint'')"
  shows "(field options ''type'' = Str ''cloud'' \<and> registry (fst s) name \<noteq> None \<longrightarrow>
            export h name options now s
              = (Inl (Error ''API endpoint not configured''), s))
       \<and> (field options ''type'' = Str ''cloud'' \<longrightarrow>
            (\<exists>e. export h name options now s = (Inl e, s)))
       \<and> (\<not> startsWith src ''http'' \<and> \<not> startsWith src ''{'' \<longrightarrow>
            import h (Str src) opts s
              = (Inl (Error ''API endpoint not configured''), s))
       \<and> saveToCloud h d s = (Inl (Error ''API endpoint not configured''), s)
       \<and> loadFromCloud h src s = (Inl (Error ''API endpoint not configured''), s)"
proof -
  have a: "field options ''type'' = Str ''cloud'' \<and> registry (fst s) name \<noteq> None \<longrightarrow>
            export h name options now s = (Inl not_configured, s)"
    using export_cloud_unconfigured[OF assms] by auto
  have b: "field options ''type'' = Str ''cloud'' \<longrightarrow>
            (\<exists>e. export h name options now s = (Inl e, s))"
  proof (cases "registry (fst s) name")
    case None
    then show ?thesis by (simp add: export_def)
  next
    case (Some c)
    then show ?thesis using a by auto
  qed
  show ?thesis
    using a b import_name_unconfigured[OF assms] saveToCloud_unconfigured[OF assms]
      loadFromCloud_unconfigured[OF assms]
    by (simp add: not_configured_def)
qed

theorem cloud_without_endpoint_witness:
  "\<not> truthy (field (config (fst card_state)) ''apiEndpoint'')
   \<and> export literal_host ''my-card'' [(''type'', Str ''cloud'')] 8 card_state
       = (Inl (Error ''API endpoint not configured''), card_state)
   \<and> import literal_host (Str ''my-card'') [] card_state
       = (Inl (Error ''API endpoint not configured''), card_state)"
proof -
  have h: "\<not> truthy (field (config (fst card_state)) ''apiEndpoint'')"
    by (simp add: card_state_endpoint)
  have t: "field [(''type'', Str ''cloud'')] ''type'' = (Str ''cloud'' :: jsval)"
    by (simp add: field_def)
  have n: "\<not> startsWith ''my-card'' ''http'' \<and> \<not> startsWith ''my-card'' ''{''"
    by (simp add: startsWith_def)
  show ?thesis
    using h t n card_state_registry
      cloud_without_endpoint[OF h, of "[(''type'', Str ''cloud'')]" "''my-card''" literal_host 8
        "''my-card''" "[]"]
    by simp
qed

section \<open>The round trip\<close>

lemma define_card:
  "fst (define_component ''my-card'' [(''template'', Fun hi_template)] 7 fresh_state) = Inr card_record"
  by (simp add: define_component_def field_def toString_def or_else_def spread_def
        filtered_keys_def Let_def hi_template_def card_record_def)

lemma card_body:
  "new_Function literal_host [''props'', ''state''] (template_body hi_source)
     = Inr (JsFun (''function anonymous(props,state'' @ nl @ '') {'' @ nl
                    @ template_body hi_source @ nl @ ''}'')
             (\<lambda>this args. Inr (Str hi_source)))"
  by (simp add: literal_host_def template_body_def hi_source_def escape_backticks_def
      literal_of_body_def plain_char_def)

lemma card_template_field: "field card_record ''template'' = Str hi_source"
  by (simp add: card_record_def field_def hi_source_def)

lemma card_template: 
  "reconstruct_template literal_host card_record
     = Inr (JsFun (''function anonymous(props,state'' @ nl @ '') {'' @ nl
                    @ template_body hi_source @ nl @ ''}'')
             (\<lambda>this args. Inr (Str hi_source)))"
  by (simp add: reconstruct_template_def card_template_field card_body)

lemma imported_card_result: "fst imported_card = Inr ''my-card''"
  unfolding imported_card_def import_def registerFromData_def reconstruct_definition_def
  by (simp add: card_template Let_def)
     (simp add: card_record_def field_def spread_def)

lemma imported_card_template:
  "registered_template (snd (snd imported_card)) ''my-card''
     = Some (JsFun (''function anonymous(props,state'' @ nl @ '') {'' @ nl
                     @ template_body hi_source @ nl @ ''}'')
             (\<lambda>this args. Inr (Str hi_source)))"
  unfolding imported_card_def import_def registerFromData_def reconstruct_definition_def
  by (simp add: card_template Let_def)
     (simp add: card_record_def field_def spread_def registerWebComponent_def fresh_elements
        registered_template_def)

text \<open>
  C1 does not hold of the code. \<open>define\<close> stores the source text of the template
  function, and \<open>registerFromData\<close> puts that text between backticks and compiles
  \<^verbatim>\<open>return `...`\<close>: the template it registers returns the source text. For
  \<^verbatim>\<open>(props, state) => '<p>hi</p>'\<close>, defined in one context and imported into another, the
  original returns \<^verbatim>\<open><p>hi</p>\<close> and the reconstructed one returns
  \<^verbatim>\<open>(props, state) => '<p>hi</p>'\<close>, whatever \<^verbatim>\<open>this\<close> and the arguments are.
\<close>

theorem round_trip_template_returns_source:
  "fst (define_component ''my-card'' [(''template'', Fun hi_template)] 7 fresh_state) = Inr card_record
   \<and> fst (import literal_host (Obj card_record) [] fresh_state) = Inr ''my-card''
   \<and> (\<exists>g. registered_template
              (snd (snd (import literal_host (Obj card_record) [] fresh_state))) ''my-card''
            = Some g
          \<and> (\<forall>this args.
                call g this args = Inr (Str (''(props, state) => '' @ sq @ ''<p>hi</p>'' @ sq))
                \<and> call hi_template this args = Inr (Str ''<p>hi</p>'')
                \<and> call g this args \<noteq> call hi_template this args))"
  using define_card imported_card_result imported_card_template
  by (simp add: imported_card_def hi_source_def hi_template_def)


section \<open>Registering a name twice\<close>





lemma reconstruct_methods_inert:
  assumes "\<forall>body s. snd (run_Function h body s) = s"
  shows "snd (reconstruct_methods h es target s) = s"
proof (induction es arbitrary: target)
  case Nil
  then show ?case by simp
next
  case (Cons a es)
  obtain k v where a: "a = (k, v)" by (cases a)
  obtain r s1 where r: "run_Function h (''return '' @ String_of v) s = (r, s1)"
    by (cases "run_Function h (''return '' @ String_of v) s")
  with assms have s1: "s1 = s" by (metis snd_conv)
  show ?case using a r s1 Cons.IH
    by (auto split: sum.splits jsvalue.splits)
qed

lemma reconstruct_definition_inert:
  assumes "\<forall>body s. snd (run_Function h body s) = s"
  shows "snd (reconstruct_definition h cd options s) = s"
proof (cases "reconstruct_template h cd")
  case (Inl e)
  then show ?thesis by (simp add: reconstruct_definition_def)
next
  case (Inr f)
  show ?thesis
  proof (cases "truthy (field cd ''methods'')")
    case True
    define defn0 where "defn0 = spread
                [(''props'', field cd ''props''), (''template'', Fun f),
                 (''styles'', field cd ''styles''), (''methods'', Obj [])] options"
    obtain r s1 where m: "reconstruct_methods h (own_entries (field cd ''methods''))
                       (field defn0 ''methods'') s = (r, s1)"
      by (cases "reconstruct_methods h (own_entries (field cd ''methods''))
                       (field defn0 ''methods'') s")
    have "s1 = s" using reconstruct_methods_inert[OF assms, of "own_entries (field cd ''methods'')"
          "field defn0 ''methods''" s] m by simp
    then show ?thesis using Inr True m
      by (cases r) (simp_all add: reconstruct_definition_def Let_def defn0_def)
  next
    case False
    then show ?thesis using Inr by (simp add: reconstruct_definition_def Let_def)
  qed
qed








lemma card_state_world: "snd card_state = fresh_world\<lparr>customElements := [''my-card'' \<mapsto>
     GeneratedComponent [(''template'', Fun hi_template)] []]\<rparr>"
  by (simp add: card_state_def define_component_def Let_def toString_def field_def
      registerWebComponent_def fresh_elements fresh_state_def fresh_world_def)








section \<open>Attribute changes\<close>






lemma title_class_registered:
  "customElements (snd (snd (define_component ''title-card'' title_definition 7 fresh_state))) ''title-card''
     = Some title_class"
  by (simp add: define_component_def Let_def toString_def field_def title_definition_def
      registerWebComponent_def fresh_elements title_class_def)




section \<open>Import of a record the host rejects\<close>

lemma map_of_obj_set: "map_of (obj_set ps k v) k' = (if k' = k then Some v else map_of ps k')"
  by (induction ps) auto

lemma field_spread_absent: "map_of ex k = None \<Longrightarrow> field (spread o1 ex) k = field o1 k"
proof (induction ex arbitrary: o1)
  case Nil
  then show ?case by (simp add: spread_def)
next
  case (Cons a ex)
  obtain k' v' where a: "a = (k', v')" by (cases a)
  with Cons.prems have ne: "k' \<noteq> k" and rest: "map_of ex k = None"
    by (auto split: if_splits)
  have "field (spread (obj_set o1 k' v') ex) k = field (obj_set o1 k' v') k"
    using Cons.IH[OF rest] .
  also have "\<dots> = field o1 k" using ne by (simp add: field_def map_of_obj_set)
  finally show ?case using a by (simp add: spread_def)
qed

lemma registerFromData_failure_state:
  assumes inert: "\<forall>body s. snd (run_Function h body s) = s"
    and fail: "registerFromData h v options s = (Inl e, s')"
  shows "s' = s"
proof (cases v)
  case (Obj cd)
  obtain r s1 where d: "reconstruct_definition h cd options s = (r, s1)"
    by (cases "reconstruct_definition h cd options s")
  have s1: "s1 = s" using reconstruct_definition_inert[OF inert, of cd options s] d by simp
  show ?thesis using fail Obj d s1
    by (cases r; cases "field cd ''name''") (auto simp: registerFromData_def)
qed (use fail in \<open>auto simp: registerFromData_def\<close>)

text \<open>A failed import may have issued a request; it has stored and registered nothing.\<close>

lemma import_failure_registries:
  assumes inert: "\<forall>body s. snd (run_Function h body s) = s"
    and fail: "import h src options s = (Inl e, s')"
  shows "registry (fst s') = registry (fst s) \<and> customElements (snd s') = customElements (snd s)"
proof -
  note rf = registerFromData_failure_state[OF inert]
  show ?thesis
  proof (cases src)
    case (Str t)
    show ?thesis
    proof (cases "startsWith t ''http''")
      case True
      then show ?thesis using fail Str
        by (auto simp: import_def do_fetch_def split: sum.splits dest!: rf)
    next
      case False
      show ?thesis
      proof (cases "startsWith t ''{''")
        case True
        then show ?thesis using fail Str False
          by (auto simp: import_def split: sum.splits dest!: rf)
      next
        case nb: False
        show ?thesis
        proof (cases "truthy (field (config (fst s)) ''apiEndpoint'')")
          case True
          then show ?thesis using fail Str False nb
            by (auto simp: import_def loadFromCloud_def do_fetch_def Let_def
                split: sum.splits dest!: rf)
        next
          case f: False
          then show ?thesis using fail Str False nb by (auto simp: import_def)
        qed
      qed
    qed
  qed (use fail in \<open>auto simp: import_def dest!: rf\<close>)
qed

lemma reconstruct_methods_failure:
  assumes inert: "\<forall>body s. snd (run_Function h body s) = s"
    and "list_all (evaluates h s) pre"
    and "fst (run_Function h (''return '' @ String_of code) s) = Inl e"
  shows "reconstruct_methods h (pre @ (k, code) # post) (Obj ms) s = (Inl e, s)"
  using assms(2,3)
proof (induction pre arbitrary: ms)
  case Nil
  obtain r s1 where r: "run_Function h (''return '' @ String_of code) s = (r, s1)"
    by (cases "run_Function h (''return '' @ String_of code) s")
  with inert have "s1 = s" by (metis snd_conv)
  then show ?case using r Nil by simp
next
  case (Cons a pre)
  obtain k' v' where a: "a = (k', v')" by (cases a)
  obtain r s1 where r: "run_Function h (''return '' @ String_of v') s = (r, s1)"
    by (cases "run_Function h (''return '' @ String_of v') s")
  with inert have s1: "s1 = s" by (metis snd_conv)
  from Cons.prems a r obtain m where m: "r = Inr m"
    by (auto simp: evaluates_def split: sum.splits)
  from Cons.prems have "list_all (evaluates h s) pre" by simp
  from Cons.IH[OF this Cons.prems(2)] show ?case using a r s1 m by simp
qed

lemma import_method_rejected:
  assumes inert: "\<forall>body s. snd (run_Function h body s) = s"
    and "reconstruct_template h cd = Inr f"
    and "field cd ''methods'' = Obj (pre @ (k, code) # post)"
    and "list_all (evaluates h s) pre"
    and "fst (run_Function h (''return '' @ String_of code) s) = Inl e"
    and "map_of options ''methods'' = None"
  shows "import h (Obj cd) options s = (Inl e, s)"
proof -
  have "field (spread [(''props'', field cd ''props''), (''template'', Fun f),
                       (''styles'', field cd ''styles''), (''methods'', Obj [])] options) ''methods''
        = Obj []"
    using field_spread_absent[OF assms(6)] by (simp add: field_def)
  then show ?thesis
    using assms(2,3) reconstruct_methods_failure[OF inert assms(4,5), of k post "[]"]
    by (simp add: import_def registerFromData_def reconstruct_definition_def Let_def)
qed

lemma bad_body:
  "new_Function literal_host [''props'', ''state''] (template_body ''<<not a function>>'')
     = Inr (JsFun (''function anonymous(props,state'' @ nl @ '') {'' @ nl
                    @ template_body ''<<not a function>>'' @ nl @ ''}'')
             (\<lambda>this args. Inr (Str ''<<not a function>>'')))"
  by (simp add: literal_host_def template_body_def escape_backticks_def
      literal_of_body_def plain_char_def)

lemma greet_run:
  "run_Function literal_host (''return '' @ String_of (Str ''function ('')) s
     = (Inl (HostError ''SyntaxError''), s)"
  by (simp add: literal_host_def unclosed_parenthesis_def syntax_error_def)

lemma num_run:
  "run_Function literal_host ''return 42'' s = (Inr (Num 42), s)"
  by (simp add: literal_host_def unclosed_parenthesis_def decimal_value_def)

lemma bad_record_imported:
  "fst (import literal_host (Obj bad_record) [] fresh_state) = Inr ''x-bad''
   \<and> customElements (snd (snd (import literal_host (Obj bad_record) [] fresh_state))) ''x-bad''
        \<noteq> None
   \<and> registry (fst (snd (import literal_host (Obj bad_record) [] fresh_state))) ''x-bad''
        = Some bad_record"
proof -
  have t: "reconstruct_template literal_host bad_record
     = Inr (JsFun (''function anonymous(props,state'' @ nl @ '') {'' @ nl
                    @ template_body ''<<not a function>>'' @ nl @ ''}'')
             (\<lambda>this args. Inr (Str ''<<not a function>>'')))"
    using bad_body by (simp add: reconstruct_template_def bad_record_def field_def)
  have n: "field bad_record ''name'' = Str ''x-bad''"
    by (simp add: bad_record_def field_def)
  have m: "own_entries (field bad_record ''methods'') = []"
    by (simp add: bad_record_def field_def)
  show ?thesis
    unfolding import_def registerFromData_def reconstruct_definition_def
    using m by (auto simp add: t n Let_def registerWebComponent_def fresh_elements)
qed

lemma num_record_imported:
  "fst (import literal_host (Obj num_record) [] fresh_state) = Inr ''x-num''
   \<and> map_option class_prototype
        (customElements (snd (snd (import literal_host (Obj num_record) [] fresh_state))) ''x-num'')
        = Some [(''greet'', Num 42)]
   \<and> registry (fst (snd (import literal_host (Obj num_record) [] fresh_state))) ''x-num''
        = Some num_record"
proof -
  have t: "reconstruct_template literal_host num_record
     = Inr (JsFun (''function anonymous(props,state'' @ nl @ '') {'' @ nl
                    @ template_body hi_source @ nl @ ''}'')
             (\<lambda>this args. Inr (Str hi_source)))"
    using card_body by (simp add: reconstruct_template_def num_record_def field_def)
  have n: "field num_record ''name'' = Str ''x-num''"
    by (simp add: num_record_def field_def)
  have m: "field num_record ''methods'' = Obj [(''greet'', Str ''42'')]"
    by (simp add: num_record_def field_def)
  show ?thesis
    unfolding import_def registerFromData_def reconstruct_definition_def
    by (simp add: t n m Let_def)
       (simp add: num_run spread_def field_def registerWebComponent_def fresh_elements
          num_record_def)
qed

text \<open>
  C2, as stated, fails: a record whose template is \<^verbatim>\<open><<not a function>>\<close>, and a record
  whose method \<^verbatim>\<open>greet\<close> is the text \<^verbatim>\<open>42\<close>, are imported without any error; the element
  is registered (with the number 42 as its \<^verbatim>\<open>greet\<close>) and the record is stored.
\<close>

theorem malformed_text_is_registered:
  "fst (import literal_host (Obj bad_record) [] fresh_state) = Inr ''x-bad''
   \<and> customElements (snd (snd (import literal_host (Obj bad_record) [] fresh_state))) ''x-bad''
        \<noteq> None
   \<and> registry (fst (snd (import literal_host (Obj bad_record) [] fresh_state))) ''x-bad''
        = Some bad_record
   \<and> fst (import literal_host (Obj num_record) [] fresh_state) = Inr ''x-num''
   \<and> map_option class_prototype
        (customElements (snd (snd (import literal_host (Obj num_record) [] fresh_state))) ''x-num'')
        = Some [(''greet'', Num 42)]
   \<and> registry (fst (snd (import literal_host (Obj num_record) [] fresh_state))) ''x-num''
        = Some num_record"
  using bad_record_imported num_record_imported by simp

text \<open>
  C2, amended: let running a source text change nothing by itself. Then an import that
  fails, whatever the source, has registered no element and stored no record. And when
  the template has been rebuilt and the host throws on the source text of a method after
  evaluating the ones before it (no \<^verbatim>\<open>methods\<close> option being given), the import of the
  record fails with the host's exception as it is, in the state as it was.
\<close>

theorem import_failure_registers_nothing:
  assumes "\<forall>body s. snd (run_Function h body s) = s"
  shows "(import h src options s = (Inl e, s') \<longrightarrow>
            registry (fst s') = registry (fst s)
            \<and> customElements (snd s') = customElements (snd s))
       \<and> (reconstruct_template h cd = Inr f
           \<and> field cd ''methods'' = Obj (pre @ (k, code) # post)
           \<and> list_all (evaluates h s) pre
           \<and> fst (run_Function h (''return '' @ String_of code) s) = Inl e'
           \<and> map_of options ''methods'' = None \<longrightarrow>
          import h (Obj cd) options s = (Inl e', s))"
  using import_failure_registries[OF assms, of src options s e s']
    import_method_rejected[OF assms, of cd f pre k code post s e' options]
  by blast

theorem import_failure_registers_nothing_witness:
  "(\<forall>body s. snd (run_Function literal_host body s) = s)
   \<and> import literal_host (Obj greet_record) [] fresh_state
     = (Inl (HostError ''SyntaxError''), fresh_state)
   \<and> customElements (snd fresh_state) ''x-greet'' = None
   \<and> registry (fst fresh_state) ''x-greet'' = None"
proof -
  have i: "\<forall>body s. snd (run_Function literal_host body s) = s"
    using literal_host_inert by simp
  have t: "reconstruct_template literal_host greet_record
     = Inr (JsFun (''function anonymous(props,state'' @ nl @ '') {'' @ nl
                    @ template_body hi_source @ nl @ ''}'')
             (\<lambda>this args. Inr (Str hi_source)))"
    using card_body by (simp add: reconstruct_template_def greet_record_def field_def)
  have m: "field greet_record ''methods'' = Obj ([] @ (''greet'', Str ''function ('') # [])"
    by (simp add: greet_record_def field_def)
  have p: "list_all (evaluates literal_host fresh_state) []" by simp
  have o: "map_of ([] :: object) ''methods'' = None" by simp
  have g: "fst (run_Function literal_host (''return '' @ String_of (Str ''function ('')) fresh_state)
            = Inl (HostError ''SyntaxError'')"
    using greet_run by simp
  have b: "import literal_host (Obj greet_record) [] fresh_state
     = (Inl (HostError ''SyntaxError''), fresh_state)"
    using t m p o g
      import_failure_registers_nothing[OF i, of "Obj greet_record" "[]" fresh_state
        "HostError ''SyntaxError''" fresh_state greet_record _
        "[]" "''greet''" "Str ''function (''" "[]" "HostError ''SyntaxError''"]
    by blast
  show ?thesis using i b by (simp add: fresh_registry fresh_elements)
qed

end
